theory Spec2Isabelle
  imports Complex_Main
begin

section \<open>Numbers and errors\<close>

text \<open>
  Python's \<open>float\<close> and \<open>int | float\<close> arguments are modelled by \<^typ>\<open>real\<close>: the
  arithmetic of \<open>charts_utils.py\<close> is read over the real numbers, and rounding error of the
  binary floating-point format is not part of the model. Python's unbounded \<open>int\<close> is
  \<^typ>\<open>int\<close>. An exception raised by the source is a value \<open>Inl e\<close> of the result type.
\<close>

datatype error =
    KerykeionException string
  | ZeroDivisionError
  | IndexError

text \<open>\<open>int(x)\<close> on a float: truncation toward zero.\<close>

definition py_int :: "real \<Rightarrow> int" where
  "py_int x = (if 0 \<le> x then \<lfloor>x\<rfloor> else \<lceil>x\<rceil>)"

text \<open>\<open>round(x)\<close> with one argument: the nearest integer, a tie going to the even one.\<close>

definition py_round :: "real \<Rightarrow> int" where
  "py_round x =
     (let f = \<lfloor>x\<rfloor>; d = x - of_int f
      in if d < 1 / 2 then f
         else if 1 / 2 < d then f + 1
         else if even f then f else f + 1)"

section \<open>Coordinate projection\<close>

text \<open>\<open>degreeDiff\<close>, lines 25 to 43: \<open>out\<close> starts as \<open>float()\<close>, that is 0.\<close>

definition degreeDiff :: "real \<Rightarrow> real \<Rightarrow> real" where
  "degreeDiff a b =
     (let out0 = 0;
          out1 = (if a > b then a - b else out0);
          out2 = (if a < b then b - a else out1)
      in if out2 > 180 then 360 - out2 else out2)"

text \<open>
  \<open>sliceToX\<close>, lines 68 to 90. \<open>math.pi\<close>, \<open>math.cos\<close> and \<open>math.sin\<close> are read as the
  exact \<open>pi\<close>, \<open>cos\<close> and \<open>sin\<close> of the reals. The source computes them in binary
  floating point, so an equality of two outputs that rests on an exact trigonometric
  identity, such as the period \<open>2 * pi\<close>, holds in this model and only up to rounding in
  the source; no such equality is stated below.
\<close>

definition sliceToX :: "real \<Rightarrow> real \<Rightarrow> real \<Rightarrow> real" where
  "sliceToX slice radius offset =
     (let plus = (pi * offset) / 180;
          radial = ((pi / 6) * slice) + plus
      in radius * (cos radial + 1))"

text \<open>\<open>sliceToY\<close>, lines 93 to 113.\<close>

definition sliceToY :: "real \<Rightarrow> real \<Rightarrow> real \<Rightarrow> real" where
  "sliceToY slice r offset =
     (let plus = (pi * offset) / 180;
          radial = ((pi / 6) * slice) + plus
      in r * ((sin radial / (- 1)) + 1))"

section \<open>Rendering integers\<close>

text \<open>
  \<open>str(n)\<close> and the f-string field \<open>{n}\<close> on an \<open>int\<close>: the decimal digits, with a
  leading minus sign for a negative number. A \<^typ>\<open>char\<close> stands for one code point
  below 256, so the degree sign of the source is the single character \<open>CHR 0xB0\<close>.
\<close>

definition digit_char :: "nat \<Rightarrow> char" where
  "digit_char n = ''0123456789'' ! n"

function str_nat :: "nat \<Rightarrow> string" where
  "str_nat n =
     (if n < 10 then [digit_char n] else str_nat (n div 10) @ [digit_char (n mod 10)])"
  by pat_completeness auto
termination
  by (relation "measure id") auto

declare str_nat.simps [simp del]

definition str_int :: "int \<Rightarrow> string" where
  "str_int i = (if i < 0 then CHR ''-'' # str_nat (nat (- i)) else str_nat (nat i))"

text \<open>The format specification \<open>02d\<close>: zero padding to a total width of two.\<close>

definition fmt_02d :: "int \<Rightarrow> string" where
  "fmt_02d i = (let s = str_int i in if length s < 2 then CHR ''0'' # s else s)"

section \<open>Degree formatting\<close>

text \<open>\<open>convert_latitude_coordinate_to_string\<close>, lines 164 to 185.\<close>

definition convert_latitude_coordinate_to_string :: "real \<Rightarrow> string \<Rightarrow> string \<Rightarrow> string" where
  \<open>convert_latitude_coordinate_to_string coord north_label south_label =
     (let sign = (if coord < 0 then south_label else north_label);
          coord = (if coord < 0 then \<bar>coord\<bar> else coord);
          deg = py_int coord;
          minute = py_int ((coord - of_int deg) * 60);
          sec = py_round ((((coord - of_int deg) * 60) - of_int minute) * 60)
      in str_int deg @ [CHR 0xB0] @ str_int minute @ [CHR 0x27] @ str_int sec
           @ [CHR 0x22] @ '' '' @ sign)\<close>

text \<open>\<open>convert_longitude_coordinate_to_string\<close>, lines 188 to 209.\<close>

definition convert_longitude_coordinate_to_string :: "real \<Rightarrow> string \<Rightarrow> string \<Rightarrow> string" where
  \<open>convert_longitude_coordinate_to_string coord east_label west_label =
     (let sign = (if coord < 0 then west_label else east_label);
          coord = (if coord < 0 then \<bar>coord\<bar> else coord);
          deg = py_int coord;
          minute = py_int ((coord - of_int deg) * 60);
          sec = py_round ((((coord - of_int deg) * 60) - of_int minute) * 60)
      in str_int deg @ [CHR 0xB0] @ str_int minute @ [CHR 0x27] @ str_int sec
           @ [CHR 0x22] @ '' '' @ sign)\<close>

text \<open>
  \<open>convert_decimal_to_degree_string\<close>, lines 290 to 321. The parameter \<open>type\<close> is the
  string the source compares with \<open>"3"\<close>, \<open>"2"\<close> and \<open>"1"\<close>.
\<close>

definition convert_decimal_to_degree_string :: "real \<Rightarrow> string \<Rightarrow> error + string" where
  \<open>convert_decimal_to_degree_string dec ty =
     (let a = py_int dec;
          a_new = (dec - of_int a) * 60;
          b_rounded = py_round a_new;
          b = py_int a_new;
          c = py_round ((a_new - of_int b) * 60)
      in if ty = ''3'' then
           Inr (fmt_02d a @ ''&#176;'' @ fmt_02d b @ ''&#39;'' @ fmt_02d c @ ''&#34;'')
         else if ty = ''2'' then
           Inr (fmt_02d a @ ''&#176;'' @ fmt_02d b_rounded @ ''&#39;'')
         else if ty = ''1'' then
           Inr (fmt_02d a @ ''&#176;'')
         else
           Inl (KerykeionException (''Wrong type: '' @ ty @ '', it must be 1, 2 or 3.'')))\<close>

section \<open>Element percentages\<close>

text \<open>
  \<open>draw_elements_percentages\<close>, lines 248 to 287. The four divisions by \<open>total\<close> raise
  \<open>ZeroDivisionError\<close> when \<open>total\<close> is zero, before any text is built.
\<close>

definition draw_elements_percentages ::
  "string \<Rightarrow> real \<Rightarrow> string \<Rightarrow> real \<Rightarrow> string \<Rightarrow> real \<Rightarrow> string \<Rightarrow> real \<Rightarrow> error + string" where
  \<open>draw_elements_percentages fire_label fire_points earth_label earth_points
       air_label air_points water_label water_points =
     (let total = fire_points + earth_points + air_points + water_points
      in if total = 0 then Inl ZeroDivisionError
         else
           (let fire_percentage = py_round (100 * fire_points / total);
                earth_percentage = py_round (100 * earth_points / total);
                air_percentage = py_round (100 * air_points / total);
                water_percentage = py_round (100 * water_points / total)
            in Inr (''<g transform="translate(-30,79)">''
                 @ ''<text y="0" style="fill:#ff6600; font-size: 10px;">'' @ fire_label
                 @ ''  '' @ str_int fire_percentage @ ''%</text>''
                 @ ''<text y="12" style="fill:#6a2d04; font-size: 10px;">'' @ earth_label
                 @ '' '' @ str_int earth_percentage @ ''%</text>''
                 @ ''<text y="24" style="fill:#6f76d1; font-size: 10px;">'' @ air_label
                 @ ''   '' @ str_int air_percentage @ ''%</text>''
                 @ ''<text y="36" style="fill:#630e73; font-size: 10px;">'' @ water_label
                 @ '' '' @ str_int water_percentage @ ''%</text>''
                 @ ''</g>'')))\<close>

section \<open>Degree rings\<close>

text \<open>
  A float inside an f-string, or under \<open>str\<close>, is printed by Python's own float
  formatting, which is no part of the repository: the renderers take it as the parameter
  \<open>repr_float\<close>.

  The body of the loop of \<open>draw_transit_ring_degree_steps\<close>, lines 337 to 345, for the
  index \<open>i\<close>: the offset after the correction, then the four coordinates.
\<close>

definition transit_ring_degree_step :: "real \<Rightarrow> real \<Rightarrow> nat \<Rightarrow> real \<times> real \<times> real \<times> real \<times> real" where
  "transit_ring_degree_step r seventh_house_degree_ut i =
     (let offset = real (i * 5) - seventh_house_degree_ut;
          offset = (if offset < 0 then offset + 360
                    else if offset > 360 then offset - 360
                    else offset);
          x1 = sliceToX 0 r offset;
          y1 = sliceToY 0 r offset;
          x2 = sliceToX 0 (r + 2) offset - 2;
          y2 = sliceToY 0 (r + 2) offset - 2
      in (offset, x1, y1, x2, y2))"

text \<open>\<open>draw_transit_ring_degree_steps\<close>, lines 324 to 349.\<close>

definition draw_transit_ring_degree_steps :: "(real \<Rightarrow> string) \<Rightarrow> real \<Rightarrow> real \<Rightarrow> string" where
  \<open>draw_transit_ring_degree_steps repr_float r seventh_house_degree_ut =
     ''<g id="transitRingDegreeSteps">''
     @ concat (map (\<lambda>i.
         (case transit_ring_degree_step r seventh_house_degree_ut i of
            (offset, x1, y1, x2, y2) \<Rightarrow>
              ''<line x1="'' @ repr_float x1 @ ''" y1="'' @ repr_float y1
              @ ''" x2="'' @ repr_float x2 @ ''" y2="'' @ repr_float y2
              @ ''" style="stroke: #F00; stroke-width: 1px; stroke-opacity:.9;"/>''))
         [0..<72])
     @ ''</g>''\<close>

text \<open>The body of the loop of \<open>draw_degree_ring\<close>, lines 366 to 374.\<close>

definition degree_ring_step :: "real \<Rightarrow> real \<Rightarrow> real \<Rightarrow> nat \<Rightarrow> real \<times> real \<times> real \<times> real \<times> real" where
  "degree_ring_step r c1 seventh_house_degree_ut i =
     (let offset = real (i * 5) - seventh_house_degree_ut;
          offset = (if offset < 0 then offset + 360
                    else if offset > 360 then offset - 360
                    else offset);
          x1 = sliceToX 0 (r - c1) offset + c1;
          y1 = sliceToY 0 (r - c1) offset + c1;
          x2 = sliceToX 0 (r + 2 - c1) offset - 2 + c1;
          y2 = sliceToY 0 (r + 2 - c1) offset - 2 + c1
      in (offset, x1, y1, x2, y2))"

text \<open>\<open>draw_degree_ring\<close>, lines 352 to 379.\<close>

definition draw_degree_ring :: "(real \<Rightarrow> string) \<Rightarrow> real \<Rightarrow> real \<Rightarrow> real \<Rightarrow> string \<Rightarrow> string" where
  \<open>draw_degree_ring repr_float r c1 seventh_house_degree_ut stroke_color =
     ''<g id="degreeRing">''
     @ concat (map (\<lambda>i.
         (case degree_ring_step r c1 seventh_house_degree_ut i of
            (offset, x1, y1, x2, y2) \<Rightarrow>
              ''<line x1="'' @ repr_float x1 @ ''" y1="'' @ repr_float y1
              @ ''" x2="'' @ repr_float x2 @ ''" y2="'' @ repr_float y2
              @ ''" style="stroke: '' @ stroke_color
              @ ''; stroke-width: 1px; stroke-opacity:.9;"/>''))
         [0..<72])
     @ ''</g>''\<close>

section \<open>Aspects\<close>

text \<open>
  The planets and aspects the renderers read: the fields \<open>id\<close>, \<open>name\<close> and
  \<open>is_active\<close> of a planet, and the seven fields of an aspect.
\<close>

record planet =
  planet_id :: int
  name :: string
  is_active :: bool

record aspect =
  p1 :: int
  p1_name :: string
  p1_abs_pos :: real
  p2 :: int
  p2_name :: string
  p2_abs_pos :: real
  aspect_degrees :: int

text \<open>
  \<open>draw_aspect_line\<close>, lines 212 to 245: the two offsets and the four coordinates of
  lines 232 to 238, then the three pieces appended to \<open>out\<close>.
\<close>

definition aspect_line_coordinates :: "real \<Rightarrow> real \<Rightarrow> aspect \<Rightarrow> real \<Rightarrow> real \<times> real \<times> real \<times> real" where
  "aspect_line_coordinates r ar aspect_dict seventh_house_degree_ut =
     (let first_offset = (of_int (py_int seventh_house_degree_ut) / (- 1))
                           + of_int (py_int (p1_abs_pos aspect_dict));
          x1 = sliceToX 0 ar first_offset + (r - ar);
          y1 = sliceToY 0 ar first_offset + (r - ar);
          second_offset = (of_int (py_int seventh_house_degree_ut) / (- 1))
                            + of_int (py_int (p2_abs_pos aspect_dict));
          x2 = sliceToX 0 ar second_offset + (r - ar);
          y2 = sliceToY 0 ar second_offset + (r - ar)
      in (x1, y1, x2, y2))"

definition aspect_metadata_tag :: "(real \<Rightarrow> string) \<Rightarrow> aspect \<Rightarrow> string" where
  \<open>aspect_metadata_tag repr_float aspect_dict =
     ''<g kr:node="Aspect" kr:to="'' @ p1_name aspect_dict
     @ ''" kr:tooriginaldegrees="'' @ repr_float (p1_abs_pos aspect_dict)
     @ ''" kr:from="'' @ p2_name aspect_dict
     @ ''" kr:fromoriginaldegrees="'' @ repr_float (p2_abs_pos aspect_dict) @ ''">''\<close>

definition aspect_line_element ::
  "(real \<Rightarrow> string) \<Rightarrow> real \<Rightarrow> real \<Rightarrow> aspect \<Rightarrow> string \<Rightarrow> real \<Rightarrow> string" where
  \<open>aspect_line_element repr_float r ar aspect_dict color seventh_house_degree_ut =
     (case aspect_line_coordinates r ar aspect_dict seventh_house_degree_ut of
        (x1, y1, x2, y2) \<Rightarrow>
          ''<line class="aspect" x1="'' @ repr_float x1 @ ''" y1="'' @ repr_float y1
          @ ''" x2="'' @ repr_float x2 @ ''" y2="'' @ repr_float y2
          @ ''" style="stroke: '' @ color
          @ ''; stroke-width: 1; stroke-opacity: .9;"/>'')\<close>

definition draw_aspect_line ::
  "(real \<Rightarrow> string) \<Rightarrow> real \<Rightarrow> real \<Rightarrow> aspect \<Rightarrow> string \<Rightarrow> real \<Rightarrow> string" where
  \<open>draw_aspect_line repr_float r ar aspect_dict color seventh_house_degree_ut =
     aspect_metadata_tag repr_float aspect_dict
     @ aspect_line_element repr_float r ar aspect_dict color seventh_house_degree_ut
     @ ''</g>''\<close>

text \<open>
  \<open>draw_aspect_grid\<close>, lines 448 to 493. Each \<open>out +=\<close> of the source appends one cell;
  the function below lists the cells in the order the loops append them, and
  \<open>render_grid_cell\<close> is the text of each.
\<close>

datatype grid_cell =
    PlanetRect int int
  | PlanetGlyph real real string
  | PairRect int int
  | OrbGlyph int int int

definition box :: int where
  "box = 14"

definition render_grid_cell :: "(real \<Rightarrow> string) \<Rightarrow> string \<Rightarrow> grid_cell \<Rightarrow> string" where
  \<open>render_grid_cell repr_float style cell =
     (case cell of
        PlanetRect xindent yindent \<Rightarrow>
          ''<rect x="'' @ str_int xindent @ ''" y="'' @ str_int yindent
          @ ''" width="'' @ str_int box @ ''" height="'' @ str_int box
          @ ''" style="'' @ style @ ''"/>''
      | PlanetGlyph x y a_name \<Rightarrow>
          ''<use transform="scale(0.4)" x="'' @ repr_float x @ ''" y="'' @ repr_float y
          @ ''" xlink:href="#'' @ a_name @ ''" />''
      | PairRect xorb yorb \<Rightarrow>
          ''<rect x="'' @ str_int xorb @ ''" y="'' @ str_int yorb
          @ ''" width="'' @ str_int box @ ''" height="'' @ str_int box
          @ ''" style="'' @ style @ ''"/>''
      | OrbGlyph x y degrees \<Rightarrow>
          ''<use  x="'' @ str_int x @ ''" y="'' @ str_int y
          @ ''" xlink:href="#orb'' @ str_int degrees @ ''" />'')\<close>

text \<open>Lines 489 to 491: the aspects of the pair \<open>a\<close>, \<open>b\<close>, with \<open>xorb\<close> already advanced.\<close>

fun aspects_of_pair :: "planet \<Rightarrow> planet \<Rightarrow> int \<Rightarrow> int \<Rightarrow> aspect list \<Rightarrow> grid_cell list" where
  "aspects_of_pair a b xorb yorb [] = []"
| "aspects_of_pair a b xorb yorb (aspect # aspects_list) =
     (if (p1 aspect = planet_id a \<and> p2 aspect = planet_id b)
         \<or> (p1 aspect = planet_id b \<and> p2 aspect = planet_id a)
      then [OrbGlyph (xorb - box + 1) (yorb + 1) (aspect_degrees aspect)]
      else [])
     @ aspects_of_pair a b xorb yorb aspects_list"

text \<open>Lines 485 to 491: the loop over \<open>second_iteration_revers_planets\<close>.\<close>

fun second_iteration :: "planet \<Rightarrow> planet list \<Rightarrow> int \<Rightarrow> int \<Rightarrow> aspect list \<Rightarrow> grid_cell list" where
  "second_iteration a [] xorb yorb aspects_list = []"
| "second_iteration a (b # bs) xorb yorb aspects_list =
     PairRect xorb yorb
     # aspects_of_pair a b (xorb + box) yorb aspects_list
     @ second_iteration a bs (xorb + box) yorb aspects_list"

text \<open>
  Lines 473 to 491: the loop over \<open>first_iteration_revers_planets\<close>. The slice
  \<open>[index+1:]\<close> of the list is what follows \<open>a\<close> in it.
\<close>

fun first_iteration :: "planet list \<Rightarrow> int \<Rightarrow> int \<Rightarrow> aspect list \<Rightarrow> grid_cell list" where
  "first_iteration [] xindent yindent aspects_list = []"
| "first_iteration (a # rest) xindent yindent aspects_list =
     PlanetRect xindent yindent
     # PlanetGlyph (of_int (xindent + 2) * 2.5) (of_int (yindent + 1) * 2.5) (name a)
     # (let xindent = xindent + box;
            yindent = yindent - box;
            xorb = xindent;
            yorb = yindent + box
        in second_iteration a rest xorb yorb aspects_list
           @ first_iteration rest xindent yindent aspects_list)"

definition aspect_grid_cells :: "planet list \<Rightarrow> aspect list \<Rightarrow> grid_cell list" where
  "aspect_grid_cells available_planets_list aspects_list =
     (let xindent = 380;
          yindent = 468;
          actual_planets = filter is_active available_planets_list;
          first_iteration_revers_planets = rev actual_planets
      in first_iteration first_iteration_revers_planets xindent yindent aspects_list)"

definition draw_aspect_grid :: "(real \<Rightarrow> string) \<Rightarrow> string \<Rightarrow> planet list \<Rightarrow> aspect list \<Rightarrow> string" where
  \<open>draw_aspect_grid repr_float stroke_color available_planets_list aspects_list =
     (let style = ''stroke:'' @ stroke_color
                    @ ''; stroke-width: 1px; stroke-opacity:.6; fill:none''
      in concat (map (render_grid_cell repr_float style)
                   (aspect_grid_cells available_planets_list aspects_list)))\<close>

section \<open>House cusps\<close>








section \<open>Reading the fragments\<close>

text \<open>
  What a reader of the output looks at: the glyph names and the rectangles of the planets
  of the aspect grid and the degrees of its aspect glyphs, in the order of the output;
  the colours of the cusp lines, the numbers of the house labels and the kind of every
  group of the house renderer.
\<close>

fun planet_glyph_names :: "grid_cell list \<Rightarrow> string list" where
  "planet_glyph_names [] = []"
| "planet_glyph_names (PlanetGlyph x y a_name # cells) = a_name # planet_glyph_names cells"
| "planet_glyph_names (cell # cells) = planet_glyph_names cells"

fun planet_rects :: "grid_cell list \<Rightarrow> (int \<times> int) list" where
  "planet_rects [] = []"
| "planet_rects (PlanetRect x y # cells) = (x, y) # planet_rects cells"
| "planet_rects (cell # cells) = planet_rects cells"

fun orb_glyph_degrees :: "grid_cell list \<Rightarrow> int list" where
  "orb_glyph_degrees [] = []"
| "orb_glyph_degrees (OrbGlyph x y degrees # cells) = degrees # orb_glyph_degrees cells"
| "orb_glyph_degrees (cell # cells) = orb_glyph_degrees cells"





section \<open>Evaluation of the integer renderer\<close>

lemmas str_nat_eval =
  str_nat.simps [of 0] str_nat.simps [of "Suc 0"] str_nat.simps [of "numeral k"]
  digit_char_def for k


section \<open>Properties of the projection\<close>

text \<open>
  C1. For all real slice, radius and offset, \<open>sliceToX\<close> is
  \<open>radius * (cos (slice * pi / 6 + offset * pi / 180) + 1)\<close> and \<open>sliceToY\<close> is
  \<open>radius * (1 - sin (slice * pi / 6 + offset * pi / 180))\<close>; at slice 0 and offset 0
  the point is \<open>(2 * r, r)\<close>.
\<close>

theorem sliceTo_formula:
  "sliceToX slice radius offset = radius * (cos (slice * pi / 6 + offset * pi / 180) + 1)
   \<and> sliceToY slice radius offset = radius * (1 - sin (slice * pi / 6 + offset * pi / 180))
   \<and> sliceToX 0 r 0 = 2 * r
   \<and> sliceToY 0 r 0 = r"
proof -
  have ang: "pi / 6 * slice + pi * offset / 180 = slice * pi / 6 + offset * pi / 180"
    by (simp add: mult.commute)
  have x: "sliceToX slice radius offset
             = radius * (cos (slice * pi / 6 + offset * pi / 180) + 1)"
    unfolding sliceToX_def Let_def ang by simp
  have y: "sliceToY slice radius offset
             = radius * (1 - sin (slice * pi / 6 + offset * pi / 180))"
    unfolding sliceToY_def Let_def ang by simp
  have x0: "sliceToX 0 r 0 = 2 * r"
    by (simp add: sliceToX_def)
  have y0: "sliceToY 0 r 0 = r"
    by (simp add: sliceToY_def)
  from x y x0 y0 show ?thesis by blast
qed

section \<open>Properties of the angular distance\<close>

text \<open>
  C2, as the spec states it, fails: \<open>degreeDiff\<close> subtracts the difference from 360 once,
  so two inputs more than 360 apart give a negative result. At 1000 and 0 the result
  is -640.
\<close>

theorem degreeDiff_range_counterexample:
  "degreeDiff 1000 0 = - 640 \<and> \<not> (0 \<le> degreeDiff 1000 0)"
  by (simp add: degreeDiff_def)

text \<open>
  C2, amended. For all real \<open>a\<close> and \<open>b\<close>, \<open>degreeDiff a b = degreeDiff b a\<close>; the result
  lies between 0 and 180 inclusive whenever \<open>a\<close> and \<open>b\<close> are at most 360 apart, which
  holds for any two degrees of \<open>[0, 360]\<close>.
\<close>

theorem degreeDiff_symmetric_bounded:
  "degreeDiff a b = degreeDiff b a
   \<and> (\<bar>a - b\<bar> \<le> 360 \<longrightarrow> 0 \<le> degreeDiff a b \<and> degreeDiff a b \<le> 180)"
  by (simp add: degreeDiff_def Let_def)

theorem degreeDiff_symmetric_bounded_witness:
  "\<bar>350 - 10 :: real\<bar> \<le> 360
   \<and> degreeDiff 350 10 = degreeDiff 10 350
   \<and> 0 \<le> degreeDiff 350 10 \<and> degreeDiff 350 10 \<le> 180
   \<and> degreeDiff 350 10 = 20"
  using degreeDiff_symmetric_bounded [of 350 10] by (simp add: degreeDiff_def)

section \<open>Properties of the element percentages\<close>

text \<open>
  C3, as the spec states it, fails: with the totals 0, 0, 0, 0 the source divides by the
  zero sum and raises; there is no fallback text.
\<close>

theorem draw_elements_percentages_zero_counterexample:
  "draw_elements_percentages ''Fire'' 0 ''Earth'' 0 ''Air'' 0 ''Water'' 0
     = Inl ZeroDivisionError"
  by (simp add: draw_elements_percentages_def)

text \<open>
  C3, amended. With the totals 1, 1, 1, 1 the text shows 25% after each of the four
  labels; with the totals 0, 0, 0, 0 the call fails with the division-by-zero error and
  returns no text.
\<close>

theorem draw_elements_percentages_quarters_and_zero:
  \<open>draw_elements_percentages fire_label 1 earth_label 1 air_label 1 water_label 1 =
     Inr (''<g transform="translate(-30,79)">''
          @ ''<text y="0" style="fill:#ff6600; font-size: 10px;">'' @ fire_label
          @ ''  25%</text>''
          @ ''<text y="12" style="fill:#6a2d04; font-size: 10px;">'' @ earth_label
          @ '' 25%</text>''
          @ ''<text y="24" style="fill:#6f76d1; font-size: 10px;">'' @ air_label
          @ ''   25%</text>''
          @ ''<text y="36" style="fill:#630e73; font-size: 10px;">'' @ water_label
          @ '' 25%</text>''
          @ ''</g>'')
   \<and> draw_elements_percentages fire_label 0 earth_label 0 air_label 0 water_label 0
       = Inl ZeroDivisionError\<close>
  by (simp add: draw_elements_percentages_def py_round_def str_int_def str_nat_eval)

section \<open>Properties of the degree formatting\<close>

text \<open>
  C4. \<open>convert_decimal_to_degree_string\<close> returns the degree string for the precision
  1, the degree and rounded minute string for 2, the degree, minute and second string for
  3, and fails with the exception of line 319 for every other precision.
\<close>

theorem convert_decimal_to_degree_string_precisions:
  \<open>convert_decimal_to_degree_string dec ''1'' = Inr (fmt_02d (py_int dec) @ ''&#176;'')
   \<and> convert_decimal_to_degree_string dec ''2'' =
       Inr (fmt_02d (py_int dec) @ ''&#176;''
            @ fmt_02d (py_round ((dec - of_int (py_int dec)) * 60)) @ ''&#39;'')
   \<and> convert_decimal_to_degree_string dec ''3'' =
       Inr (fmt_02d (py_int dec) @ ''&#176;''
            @ fmt_02d (py_int ((dec - of_int (py_int dec)) * 60)) @ ''&#39;''
            @ fmt_02d (py_round (((dec - of_int (py_int dec)) * 60
                         - of_int (py_int ((dec - of_int (py_int dec)) * 60))) * 60))
            @ ''&#34;'')
   \<and> (ty \<notin> {''1'', ''2'', ''3''} \<longrightarrow>
       convert_decimal_to_degree_string dec ty =
         Inl (KerykeionException (''Wrong type: '' @ ty @ '', it must be 1, 2 or 3.'')))\<close>
  by (simp add: convert_decimal_to_degree_string_def Let_def)

theorem convert_decimal_to_degree_string_precisions_witness:
  \<open>''4'' \<notin> {''1'', ''2'', ''3''}
   \<and> convert_decimal_to_degree_string (521234567 / 10000000) ''4''
       = Inl (KerykeionException ''Wrong type: 4, it must be 1, 2 or 3.'')
   \<and> convert_decimal_to_degree_string (521234567 / 10000000) ''3''
       = Inr ''52&#176;07&#39;24&#34;''
   \<and> convert_decimal_to_degree_string (521234567 / 10000000) ''2'' = Inr ''52&#176;07&#39;''
   \<and> convert_decimal_to_degree_string (521234567 / 10000000) ''1'' = Inr ''52&#176;''\<close>
  using convert_decimal_to_degree_string_precisions [of "521234567 / 10000000" "''4''"]
  by (simp add: py_int_def py_round_def fmt_02d_def str_int_def str_nat_eval)

text \<open>
  C10. A seconds field of 60 is reachable, with the minutes not carried: the latitude and
  the longitude 0.016665 are both written with 0 degrees, 0 minutes and 60 seconds, and
  10.999916666..., that is 10 degrees and 59.995 minutes, with 59 minutes and 60 seconds;
  the same holds on the southern and western side.
\<close>

theorem coordinate_seconds_sixty:
  \<open>convert_latitude_coordinate_to_string (3333 / 200000) ''N'' ''S''
     = ''0'' @ [CHR 0xB0] @ ''0'' @ [CHR 0x27] @ ''60'' @ [CHR 0x22] @ '' N''
   \<and> convert_longitude_coordinate_to_string (3333 / 200000) ''E'' ''W''
     = ''0'' @ [CHR 0xB0] @ ''0'' @ [CHR 0x27] @ ''60'' @ [CHR 0x22] @ '' E''
   \<and> convert_latitude_coordinate_to_string (131999 / 12000) ''N'' ''S''
     = ''10'' @ [CHR 0xB0] @ ''59'' @ [CHR 0x27] @ ''60'' @ [CHR 0x22] @ '' N''
   \<and> convert_longitude_coordinate_to_string (131999 / 12000) ''E'' ''W''
     = ''10'' @ [CHR 0xB0] @ ''59'' @ [CHR 0x27] @ ''60'' @ [CHR 0x22] @ '' E''
   \<and> convert_latitude_coordinate_to_string (- (131999 / 12000)) ''N'' ''S''
     = ''10'' @ [CHR 0xB0] @ ''59'' @ [CHR 0x27] @ ''60'' @ [CHR 0x22] @ '' S''
   \<and> convert_longitude_coordinate_to_string (- (131999 / 12000)) ''E'' ''W''
     = ''10'' @ [CHR 0xB0] @ ''59'' @ [CHR 0x27] @ ''60'' @ [CHR 0x22] @ '' W''\<close>
  by (simp add: convert_latitude_coordinate_to_string_def
        convert_longitude_coordinate_to_string_def
        py_int_def py_round_def str_int_def str_nat_eval)

section \<open>Properties of the degree rings\<close>



section \<open>Properties of the aspect grid\<close>

lemma planet_glyph_names_append:
  "planet_glyph_names (xs @ ys) = planet_glyph_names xs @ planet_glyph_names ys"
  by (induction xs rule: planet_glyph_names.induct) simp_all

lemma planet_rects_append:
  "planet_rects (xs @ ys) = planet_rects xs @ planet_rects ys"
  by (induction xs rule: planet_rects.induct) simp_all

lemma names_aspects_of_pair: "planet_glyph_names (aspects_of_pair a b x y asps) = []"
  by (induction asps) (simp_all add: planet_glyph_names_append)

lemma rects_aspects_of_pair: "planet_rects (aspects_of_pair a b x y asps) = []"
  by (induction asps) (simp_all add: planet_rects_append)

lemma names_second_iteration: "planet_glyph_names (second_iteration a bs x y asps) = []"
  by (induction bs arbitrary: x)
     (simp_all add: planet_glyph_names_append names_aspects_of_pair)

lemma rects_second_iteration: "planet_rects (second_iteration a bs x y asps) = []"
  by (induction bs arbitrary: x) (simp_all add: planet_rects_append rects_aspects_of_pair)

text \<open>The outer loop shows one glyph per planet of its list, in the order of the list.\<close>

lemma names_first_iteration:
  "planet_glyph_names (first_iteration ps x y asps) = map name ps"
  by (induction ps arbitrary: x y)
     (simp_all add: Let_def planet_glyph_names_append names_second_iteration)

text \<open>The rectangle of the \<open>k\<close>-th planet of the list is \<open>k\<close> boxes right and up.\<close>

lemma rects_first_iteration:
  "planet_rects (first_iteration ps x y asps)
     = map (\<lambda>k. (x + int k * box, y - int k * box)) [0..<length ps]"
proof (induction ps arbitrary: x y)
  case Nil
  then show ?case by simp
next
  case (Cons a ps)
  have "map (\<lambda>k. (x + int k * box, y - int k * box)) [0..<length (a # ps)]
          = (x, y) # map (\<lambda>k. (x + box + int k * box, y - box - int k * box)) [0..<length ps]"
    by (simp add: upt_conv_Cons map_Suc_upt [symmetric] algebra_simps del: upt_Suc)
  then show ?case
    by (simp add: Let_def planet_rects_append rects_second_iteration Cons.IH del: upt_Suc)
qed

text \<open>
  C6. The grid has one planet rectangle and one planet glyph per active planet, in the
  reverse of the input order, and the inactive planets change nothing. With the planets
  \<open>A\<close> (active), \<open>B\<close> (inactive), \<open>C\<close> (active) and the one aspect of \<open>A\<close> and \<open>C\<close> at 90
  degrees, the cells are the row of \<open>C\<close>, the cell of the pair with the one glyph
  \<open>orb90\<close>, and the row of \<open>A\<close>; no cell comes from \<open>B\<close>.
\<close>

theorem draw_aspect_grid_active_reversed:
  \<open>planet_glyph_names (aspect_grid_cells planets aspects)
     = map name (rev (filter is_active planets))
   \<and> planet_rects (aspect_grid_cells planets aspects)
       = map (\<lambda>k. (380 + int k * 14, 468 - int k * 14))
           [0..<length (filter is_active planets)]
   \<and> aspect_grid_cells planets aspects = aspect_grid_cells (filter is_active planets) aspects
   \<and> (is_active A \<and> \<not> is_active B \<and> is_active C
        \<and> p1 asp = planet_id A \<and> p2 asp = planet_id C \<and> aspect_degrees asp = 90 \<longrightarrow>
       aspect_grid_cells [A, B, C] [asp]
         = [PlanetRect 380 468, PlanetGlyph 955 1172.5 (name C),
            PairRect 394 468, OrbGlyph 395 469 90,
            PlanetRect 394 454, PlanetGlyph 990 1137.5 (name A)]
       \<and> orb_glyph_degrees (aspect_grid_cells [A, B, C] [asp]) = [90]
       \<and> draw_aspect_grid repr_float stroke_color [A, B, C] [asp]
           = ''<rect x="380" y="468" width="14" height="14" style="stroke:'' @ stroke_color
             @ ''; stroke-width: 1px; stroke-opacity:.6; fill:none"/>''
             @ ''<use transform="scale(0.4)" x="'' @ repr_float 955
             @ ''" y="'' @ repr_float 1172.5 @ ''" xlink:href="#'' @ name C @ ''" />''
             @ ''<rect x="394" y="468" width="14" height="14" style="stroke:'' @ stroke_color
             @ ''; stroke-width: 1px; stroke-opacity:.6; fill:none"/>''
             @ ''<use  x="395" y="469" xlink:href="#orb90" />''
             @ ''<rect x="394" y="454" width="14" height="14" style="stroke:'' @ stroke_color
             @ ''; stroke-width: 1px; stroke-opacity:.6; fill:none"/>''
             @ ''<use transform="scale(0.4)" x="'' @ repr_float 990
             @ ''" y="'' @ repr_float 1137.5 @ ''" xlink:href="#'' @ name A @ ''" />'')\<close>
proof -
  have names: "planet_glyph_names (aspect_grid_cells planets aspects)
                 = map name (rev (filter is_active planets))"
    by (simp add: aspect_grid_cells_def names_first_iteration)
  have rects: "planet_rects (aspect_grid_cells planets aspects)
                 = map (\<lambda>k. (380 + int k * 14, 468 - int k * 14))
                     [0..<length (filter is_active planets)]"
    by (simp add: aspect_grid_cells_def rects_first_iteration box_def)
  have active: "aspect_grid_cells planets aspects
                  = aspect_grid_cells (filter is_active planets) aspects"
    by (simp add: aspect_grid_cells_def)
  have cells: "aspect_grid_cells [A, B, C] [asp]
         = [PlanetRect 380 468, PlanetGlyph 955 1172.5 (name C),
            PairRect 394 468, OrbGlyph 395 469 90,
            PlanetRect 394 454, PlanetGlyph 990 1137.5 (name A)]"
    if "is_active A" "\<not> is_active B" "is_active C"
      "p1 asp = planet_id A" "p2 asp = planet_id C" "aspect_degrees asp = 90"
    using that by (simp add: aspect_grid_cells_def box_def)
  have rendered: \<open>draw_aspect_grid repr_float stroke_color [A, B, C] [asp]
           = ''<rect x="380" y="468" width="14" height="14" style="stroke:'' @ stroke_color
             @ ''; stroke-width: 1px; stroke-opacity:.6; fill:none"/>''
             @ ''<use transform="scale(0.4)" x="'' @ repr_float 955
             @ ''" y="'' @ repr_float 1172.5 @ ''" xlink:href="#'' @ name C @ ''" />''
             @ ''<rect x="394" y="468" width="14" height="14" style="stroke:'' @ stroke_color
             @ ''; stroke-width: 1px; stroke-opacity:.6; fill:none"/>''
             @ ''<use  x="395" y="469" xlink:href="#orb90" />''
             @ ''<rect x="394" y="454" width="14" height="14" style="stroke:'' @ stroke_color
             @ ''; stroke-width: 1px; stroke-opacity:.6; fill:none"/>''
             @ ''<use transform="scale(0.4)" x="'' @ repr_float 990
             @ ''" y="'' @ repr_float 1137.5 @ ''" xlink:href="#'' @ name A @ ''" />''\<close>
    if "is_active A" "\<not> is_active B" "is_active C"
      "p1 asp = planet_id A" "p2 asp = planet_id C" "aspect_degrees asp = 90"
    unfolding draw_aspect_grid_def Let_def cells [OF that]
    by (simp add: render_grid_cell_def box_def str_int_def str_nat_eval)
  from names rects active cells rendered show ?thesis
    by simp
qed

theorem draw_aspect_grid_active_reversed_witness:
  "is_active \<lparr>planet_id = 0, name = ''Sun'', is_active = True\<rparr>
   \<and> \<not> is_active \<lparr>planet_id = 1, name = ''Moon'', is_active = False\<rparr>
   \<and> is_active \<lparr>planet_id = 2, name = ''Mars'', is_active = True\<rparr>
   \<and> aspect_grid_cells
         [\<lparr>planet_id = 0, name = ''Sun'', is_active = True\<rparr>,
          \<lparr>planet_id = 1, name = ''Moon'', is_active = False\<rparr>,
          \<lparr>planet_id = 2, name = ''Mars'', is_active = True\<rparr>]
         [\<lparr>p1 = 0, p1_name = ''Sun'', p1_abs_pos = 10, p2 = 2, p2_name = ''Mars'',
           p2_abs_pos = 100, aspect_degrees = 90\<rparr>]
       = [PlanetRect 380 468, PlanetGlyph 955 1172.5 ''Mars'',
          PairRect 394 468, OrbGlyph 395 469 90,
          PlanetRect 394 454, PlanetGlyph 990 1137.5 ''Sun'']
   \<and> planet_glyph_names (aspect_grid_cells
         [\<lparr>planet_id = 0, name = ''Sun'', is_active = True\<rparr>,
          \<lparr>planet_id = 1, name = ''Moon'', is_active = False\<rparr>,
          \<lparr>planet_id = 2, name = ''Mars'', is_active = True\<rparr>]
         [\<lparr>p1 = 0, p1_name = ''Sun'', p1_abs_pos = 10, p2 = 2, p2_name = ''Mars'',
           p2_abs_pos = 100, aspect_degrees = 90\<rparr>])
       = [''Mars'', ''Sun'']"
proof -
  let ?A = "\<lparr>planet_id = 0, name = ''Sun'', is_active = True\<rparr>"
  let ?B = "\<lparr>planet_id = 1, name = ''Moon'', is_active = False\<rparr>"
  let ?C = "\<lparr>planet_id = 2, name = ''Mars'', is_active = True\<rparr>"
  let ?asp = "\<lparr>p1 = 0, p1_name = ''Sun'', p1_abs_pos = 10, p2 = 2, p2_name = ''Mars'',
               p2_abs_pos = 100, aspect_degrees = 90\<rparr>"
  note grid = draw_aspect_grid_active_reversed [of "[?A, ?B, ?C]" "[?asp]" ?A ?B ?C ?asp]
  have given: "is_active ?A \<and> \<not> is_active ?B \<and> is_active ?C
               \<and> p1 ?asp = planet_id ?A \<and> p2 ?asp = planet_id ?C \<and> aspect_degrees ?asp = 90"
    by simp
  from grid given have "aspect_grid_cells [?A, ?B, ?C] [?asp]
         = [PlanetRect 380 468, PlanetGlyph 955 1172.5 (name ?C),
            PairRect 394 468, OrbGlyph 395 469 90,
            PlanetRect 394 454, PlanetGlyph 990 1137.5 (name ?A)]"
    by blast
  then have cells: "aspect_grid_cells [?A, ?B, ?C] [?asp]
         = [PlanetRect 380 468, PlanetGlyph 955 1172.5 ''Mars'',
            PairRect 394 468, OrbGlyph 395 469 90,
            PlanetRect 394 454, PlanetGlyph 990 1137.5 ''Sun'']"
    by simp
  from grid have "planet_glyph_names (aspect_grid_cells [?A, ?B, ?C] [?asp])
                    = map name (rev (filter is_active [?A, ?B, ?C]))"
    by blast
  then have names: "planet_glyph_names (aspect_grid_cells [?A, ?B, ?C] [?asp])
                      = [''Mars'', ''Sun'']"
    by simp
  from given cells names show ?thesis
    by blast
qed

section \<open>Properties of the aspect lines\<close>

text \<open>
  C9. Two calls of \<open>draw_aspect_line\<close> with the same \<open>r\<close> and \<open>ar\<close>, whose
  \<open>seventh_house_degree_ut\<close>, \<open>p1_abs_pos\<close> and \<open>p2_abs_pos\<close> have the same integer
  parts, compute the same four coordinates and, for the same colour, write the same line
  element: the output of a call is its own metadata tag around the line element of the
  other.
\<close>

theorem draw_aspect_line_truncated_degrees:
  assumes "py_int s = py_int s'"
    and "py_int (p1_abs_pos a) = py_int (p1_abs_pos a')"
    and "py_int (p2_abs_pos a) = py_int (p2_abs_pos a')"
  shows "aspect_line_coordinates r ar a s = aspect_line_coordinates r ar a' s'
    \<and> aspect_line_element repr_float r ar a color s
        = aspect_line_element repr_float r ar a' color s'
    \<and> draw_aspect_line repr_float r ar a color s
        = aspect_metadata_tag repr_float a
          @ aspect_line_element repr_float r ar a' color s' @ ''</g>''"
  using assms
  by (simp add: aspect_line_coordinates_def aspect_line_element_def draw_aspect_line_def)

theorem draw_aspect_line_truncated_degrees_witness:
  "py_int 200.3 = py_int 200.9
   \<and> py_int (p1_abs_pos \<lparr>p1 = 0, p1_name = ''Sun'', p1_abs_pos = 10.5, p2 = 2,
                 p2_name = ''Mars'', p2_abs_pos = 100.25, aspect_degrees = 90\<rparr>) = 10
   \<and> py_int (p1_abs_pos \<lparr>p1 = 0, p1_name = ''Sun'', p1_abs_pos = 10.75, p2 = 2,
                 p2_name = ''Mars'', p2_abs_pos = 100.5, aspect_degrees = 90\<rparr>) = 10
   \<and> aspect_line_coordinates 240 120
        \<lparr>p1 = 0, p1_name = ''Sun'', p1_abs_pos = 10.5, p2 = 2,
          p2_name = ''Mars'', p2_abs_pos = 100.25, aspect_degrees = 90\<rparr> 200.3
      = aspect_line_coordinates 240 120
        \<lparr>p1 = 0, p1_name = ''Sun'', p1_abs_pos = 10.75, p2 = 2,
          p2_name = ''Mars'', p2_abs_pos = 100.5, aspect_degrees = 90\<rparr> 200.9"
  using draw_aspect_line_truncated_degrees
    [of "200.3" "200.9"
        "\<lparr>p1 = 0, p1_name = ''Sun'', p1_abs_pos = 10.5, p2 = 2,
          p2_name = ''Mars'', p2_abs_pos = 100.25, aspect_degrees = 90\<rparr>"
        "\<lparr>p1 = 0, p1_name = ''Sun'', p1_abs_pos = 10.75, p2 = 2,
          p2_name = ''Mars'', p2_abs_pos = 100.5, aspect_degrees = 90\<rparr>"
        240 120]
  by (simp add: py_int_def)

section \<open>Properties of the house cusps\<close>











end
